theory Spec2Isabelle
  imports Main "HOL-Library.Sublist"
begin

section \<open>The command-line chat client of \<^verbatim>\<open>analytics_mcp/client.py\<close>\<close>

text \<open>
  The program is one function \<^verbatim>\<open>main\<close> with a nested closure \<^verbatim>\<open>ask\<close>. The closure
  appends a user turn to the list \<^verbatim>\<open>history\<close>, opens a streaming request, dispatches
  on the type of every event the stream yields, asks the stream for its final response
  and appends an assistant turn. The model below follows the source line by line:
  \<^item> the mutable list \<^verbatim>\<open>history\<close>, the requests sent and the terminal output are the
    fields of a record that every operation takes and returns;
  \<^item> every exception is a value of \<open>exn\<close>, and a computation that may raise returns
    \<open>exn + 'a\<close>;
  \<^item> what the client library and the remote service do (whether the stream can be
    opened, which events it yields, whether iteration raises, what
    \<^verbatim>\<open>get_final_response\<close> returns) is not code of the repository: it is an argument
    of the model, so every theorem holds for every behaviour of the library.
\<close>

subsection \<open>Strings\<close>

text \<open>
  A Python \<^verbatim>\<open>str\<close> is a sequence of Unicode code points, so text that comes from the
  user or from the service is a list of code points. Fixed ASCII labels of the source
  (event types, roles, dictionary keys) are HOL strings; \<open>ascii\<close> embeds them.
\<close>

type_synonym pystr = "nat list"

definition ascii :: "string \<Rightarrow> pystr" where
  "ascii s = map of_char s"

text \<open>
  \<^verbatim>\<open>str.strip()\<close> without argument removes leading and trailing characters for which
  \<^verbatim>\<open>str.isspace\<close> holds. These are the code points below.
\<close>

definition isspace :: "nat \<Rightarrow> bool" where
  "isspace c \<longleftrightarrow>
     (9 \<le> c \<and> c \<le> 13) \<or> (28 \<le> c \<and> c \<le> 32) \<or> c = 133 \<or> c = 160 \<or> c = 5760 \<or>
     (8192 \<le> c \<and> c \<le> 8202) \<or> c = 8232 \<or> c = 8233 \<or> c = 8239 \<or> c = 8287 \<or>
     c = 12288"

definition strip :: "pystr \<Rightarrow> pystr" where
  "strip s = rev (dropWhile isspace (rev (dropWhile isspace s)))"

subsection \<open>ANSI helpers\<close>

definition RESET :: pystr where "RESET = 27 # ascii ''[0m''"
definition DIM :: pystr where "DIM = 27 # ascii ''[2m''"
definition BOLD :: pystr where "BOLD = 27 # ascii ''[1m''"
definition FG_GREEN :: pystr where "FG_GREEN = 27 # ascii ''[32m''"
definition FG_CYAN :: pystr where "FG_CYAN = 27 # ascii ''[36m''"
definition FG_YELLOW :: pystr where "FG_YELLOW = 27 # ascii ''[33m''"
definition FG_RED :: pystr where "FG_RED = 27 # ascii ''[31m''"
definition FG_BLUE :: pystr where "FG_BLUE = 27 # ascii ''[34m''"

subsection \<open>Values carried by events\<close>

text \<open>
  The payloads of tool events (\<^verbatim>\<open>args\<close>, \<^verbatim>\<open>args_delta\<close>, \<^verbatim>\<open>result\<close>, \<^verbatim>\<open>error\<close>, ...)
  are values that the source hands to \<^verbatim>\<open>json.dumps\<close> and tests for truth.
\<close>

datatype json =
    JNull
  | JBool bool
  | JInt int
  | JStr pystr
  | JList "json list"
  | JDict "(pystr \<times> json) list"

text \<open>Python's truth value of such a value (\<^verbatim>\<open>if x:\<close>).\<close>

fun truthy :: "json \<Rightarrow> bool" where
  "truthy JNull = False"
| "truthy (JBool b) = b"
| "truthy (JInt i) = (i \<noteq> 0)"
| "truthy (JStr s) = (s \<noteq> [])"
| "truthy (JList xs) = (xs \<noteq> [])"
| "truthy (JDict kvs) = (kvs \<noteq> [])"

subsection \<open>Terminal output\<close>

text \<open>
  The terminal output of a run is the sequence of output calls the source makes, each
  with its arguments: \<open>Bar title color\<close> for \<^verbatim>\<open>bar(title, color)\<close>, \<open>Kv label value color\<close>
  for \<^verbatim>\<open>kv(label, value, color)\<close>, \<open>Print_json v\<close> for \<^verbatim>\<open>print(pretty_json(v))\<close>,
  \<open>Print text end\<close> for \<^verbatim>\<open>print(text, end=end)\<close>, \<open>Write text\<close> for
  \<^verbatim>\<open>sys.stdout.write(text)\<close> followed by the flush, and \<open>Prompt text\<close> for the prompt that
  \<^verbatim>\<open>input(text)\<close> shows.
\<close>

datatype out =
    is_Bar: Bar string pystr
  | Kv string pystr pystr
  | Print_json json
  | Print pystr pystr
  | Write pystr
  | Prompt pystr

subsection \<open>Exceptions\<close>

text \<open>
  The source tells two classes of exception apart: \<^verbatim>\<open>KeyboardInterrupt\<close>, and the
  instances of \<^verbatim>\<open>Exception\<close> (with the text that \<^verbatim>\<open>str(e)\<close> gives). An attribute that an
  event lacks raises \<^verbatim>\<open>AttributeError\<close>, an instance of \<^verbatim>\<open>Exception\<close>; its message
  names the attribute (the class name of the event object is not part of the model).
\<close>

datatype exn = KeyboardInterrupt | Exception pystr

definition attribute_error :: "string \<Rightarrow> exn" where
  "attribute_error name = Exception (ascii (''object has no attribute '' @ name))"

subsection \<open>Command line\<close>

text \<open>The command-line arguments after parsing (lines 37 to 42).\<close>

record cli_args =
  message :: "pystr option"
  model :: pystr
  no_tools :: bool
  trace :: bool

subsection \<open>Events\<close>

text \<open>
  An event is an object of the client library; the source reads the attributes below.
  \<open>None\<close> stands for an attribute that is missing (or, for the attributes read with
  \<^verbatim>\<open>getattr(event, name, None)\<close>, also one that is \<^verbatim>\<open>None\<close>). \<open>tool_name\<close> is
  \<^verbatim>\<open>event.tool.name\<close>.
\<close>

record event =
  type :: "string option"
  delta :: "pystr option"
  tool_name :: "pystr option"
  call_id :: "pystr option"
  args :: "json option"
  args_delta :: "json option"
  output_text :: "pystr option"
  is_streaming :: "bool option"
  output_image :: "json option"
  result :: "json option"
  error :: "json option"

text \<open>What the body of the \<^verbatim>\<open>for\<close> loop does after one event: go on, or \<^verbatim>\<open>break\<close>.\<close>

datatype ctl = Continue | Break

text \<open>
  The body of the loop (lines 94 to 138): the output calls made for one event, and
  either the exception raised in the body or how the loop goes on. The output made
  before an exception is raised stays on the terminal. \<open>trace a\<close> is \<^verbatim>\<open>args.trace\<close>.
\<close>

definition handle_event :: "cli_args \<Rightarrow> event \<Rightarrow> out list \<times> (exn + ctl)" where
  "handle_event a ev =
    (let t = type ev in
     if t = Some ''response.output_text.delta'' then
       (case delta ev of
          None \<Rightarrow> ([], Inl (attribute_error ''delta''))
        | Some d \<Rightarrow> ([Write d], Inr Continue))
     else if t = Some ''response.output_text.done'' then
       ([Print [] []], Inr Continue)
     else if trace a \<and> t = Some ''response.tool_call.begin'' then
       (case tool_name ev of
          None \<Rightarrow> ([Bar ''Tool Call Begin'' FG_YELLOW], Inl (attribute_error ''tool''))
        | Some n \<Rightarrow>
           ([Bar ''Tool Call Begin'' FG_YELLOW, Kv ''tool'' n FG_YELLOW]
            @ (case call_id ev of
                 None \<Rightarrow> []
               | Some c \<Rightarrow> if c \<noteq> [] then [Kv ''call_id'' c FG_YELLOW] else [])
            @ (case args ev of
                 None \<Rightarrow> []
               | Some v \<Rightarrow> if truthy v then [Print_json v] else []),
            Inr Continue))
     else if trace a \<and> t = Some ''response.tool_call.delta'' then
       (case args_delta ev of
          None \<Rightarrow> ([], Inr Continue)
        | Some v \<Rightarrow>
           if truthy v then ([Kv ''args_delta'' [] FG_YELLOW, Print_json v], Inr Continue)
           else ([], Inr Continue))
     else if trace a \<and> t = Some ''response.tool_call.output'' then
       (let image = (case output_image ev of
                       None \<Rightarrow> []
                     | Some i \<Rightarrow>
                        if truthy i
                        then [Kv ''output_image'' (ascii ''[binary image]'') FG_BLUE]
                        else [])
        in case output_text ev of
             None \<Rightarrow> ([Bar ''Tool Output'' FG_BLUE] @ image, Inr Continue)
           | Some s \<Rightarrow>
              if s \<noteq> [] then
                (case is_streaming ev of
                   None \<Rightarrow> ([Bar ''Tool Output'' FG_BLUE], Inl (attribute_error ''is_streaming''))
                 | Some b \<Rightarrow>
                    ([Bar ''Tool Output'' FG_BLUE, Print s (if b then [] else [10])] @ image,
                     Inr Continue))
              else ([Bar ''Tool Output'' FG_BLUE] @ image, Inr Continue))
     else if trace a \<and> t = Some ''response.tool_call.completed'' then
       ([Bar ''Tool Call Completed'' FG_YELLOW]
        @ (case result ev of
             None \<Rightarrow> []
           | Some r \<Rightarrow> if truthy r then [Print_json r] else []),
        Inr Continue)
     else if t = Some ''response.error'' then
       (case error ev of
          None \<Rightarrow> ([Bar ''Error'' FG_RED], Inl (attribute_error ''error''))
        | Some e \<Rightarrow>
           ([Bar ''Error'' FG_RED, Print_json (JDict [(ascii ''error'', e)])], Inr Break))
     else ([], Inr Continue))"

subsection \<open>The stream\<close>

text \<open>
  Iterating the stream either yields the next event, or raises (the connection is lost,
  the user interrupts), or ends. \<open>items\<close> lists what the iterator does in order; the end
  of the list is the end of the iteration. \<open>get_final_response\<close> is the outcome of the
  call of that name, made after the loop. The only attribute the source reads of the
  response is \<^verbatim>\<open>output_text\<close>, which may be \<^verbatim>\<open>None\<close>.
\<close>

datatype item = Yield event | Raise exn

record response =
  resp_output_text :: "pystr option"

record stream =
  items :: "item list"
  get_final_response :: "exn + response"

text \<open>
  The \<^verbatim>\<open>for\<close> loop (lines 93 to 138): the output made, and the exception that ended the
  loop if one did. After a \<^verbatim>\<open>break\<close> nothing more is taken from the iterator.
\<close>

fun for_events :: "cli_args \<Rightarrow> item list \<Rightarrow> out list \<times> exn option" where
  "for_events a [] = ([], None)"
| "for_events a (Raise x # rest) = ([], Some x)"
| "for_events a (Yield ev # rest) =
     (case handle_event a ev of
        (os, Inl x) \<Rightarrow> (os, Some x)
      | (os, Inr Break) \<Rightarrow> (os, None)
      | (os, Inr Continue) \<Rightarrow>
          (case for_events a rest of (os', r) \<Rightarrow> (os @ os', r)))"

text \<open>
  The body of the \<^verbatim>\<open>try\<close> statement (lines 87 to 141). The first argument of the sum is
  the exception raised by \<^verbatim>\<open>client.responses.stream(...)\<close> or on entering the \<^verbatim>\<open>with\<close>
  block when the stream cannot be established. Leaving the \<^verbatim>\<open>with\<close> block closes the
  connection and lets an exception of the body through.
\<close>

definition try_stream :: "cli_args \<Rightarrow> exn + stream \<Rightarrow> out list \<times> (exn + response)" where
  "try_stream a conn =
     (case conn of
        Inl x \<Rightarrow> ([], Inl x)
      | Inr st \<Rightarrow>
          (case for_events a (items st) of
             (os, Some x) \<Rightarrow> (os, Inl x)
           | (os, None) \<Rightarrow> (os, get_final_response st)))"

subsection \<open>Turns, requests and the session\<close>

record part =
  part_type :: string
  part_text :: pystr

record turn =
  role :: string
  content :: "part list"

record tool =
  tool_type :: string
  server_label :: string
  server_url :: string
  require_approval :: string

text \<open>
  A request is one call of \<^verbatim>\<open>client.responses.stream\<close> with its keyword arguments
  \<^verbatim>\<open>model\<close>, \<^verbatim>\<open>input\<close> (the turn sequence at the time of the call) and \<^verbatim>\<open>tools\<close>.
\<close>

record request =
  req_model :: pystr
  req_input :: "turn list"
  req_tools :: "tool list option"

record session =
  history :: "turn list"
  requests :: "request list"
  stdout :: "out list"

text \<open>The system turn that \<^verbatim>\<open>main\<close> puts into \<^verbatim>\<open>history\<close> (lines 47 to 62).\<close>

definition system_turn :: turn where
  "system_turn =
     \<lparr>role = ''system'',
      content =
        [\<lparr>part_type = ''input_text'',
          part_text =
            ascii ''You are a helpful assistant in a CLI. ''
            @ ascii ''When appropriate, include a very brief section titled ''
            @ ascii (CHR 0x27 # ''Reasoning (brief):'' @ [CHR 0x27] @ '' with 1'')
            @ [8211] @ ascii ''2 short sentences that summarize your plan'' @ [8212]
            @ ascii ''do not reveal chain-of-thought or step-by-step reasoning.''\<rparr>]\<rparr>"

definition user_turn :: "pystr \<Rightarrow> turn" where
  "user_turn user_text =
     \<lparr>role = ''user'', content = [\<lparr>part_type = ''input_text'', part_text = user_text\<rparr>]\<rparr>"

definition assistant_turn :: "pystr \<Rightarrow> turn" where
  "assistant_turn reply =
     \<lparr>role = ''assistant'', content = [\<lparr>part_type = ''output_text'', part_text = reply\<rparr>]\<rparr>"

text \<open>The tool descriptor of lines 64 to 71.\<close>

definition mcp_tool :: tool where
  "mcp_tool =
     \<lparr>tool_type = ''mcp'',
      server_label = ''google-analytics-mcp'',
      server_url = ''https://tom-nominated-beneficial-joining.trycloudflare.com/mcp/'',
      require_approval = ''never''\<rparr>"

definition tools_of :: "cli_args \<Rightarrow> tool list option" where
  "tools_of a = (if no_tools a then None else Some [mcp_tool])"

text \<open>\<^verbatim>\<open>tools or None\<close>: an empty list counts as false.\<close>

definition or_None :: "'a list option \<Rightarrow> 'a list option" where
  "or_None ts = (case ts of None \<Rightarrow> None | Some xs \<Rightarrow> if xs = [] then None else Some xs)"

text \<open>\<^verbatim>\<open>resp.output_text or ""\<close>.\<close>

definition reply_of :: "response \<Rightarrow> pystr" where
  "reply_of resp = (case resp_output_text resp of None \<Rightarrow> [] | Some s \<Rightarrow> s)"

subsection \<open>One exchange\<close>

text \<open>
  \<^verbatim>\<open>ask(model, user_text)\<close> (lines 73 to 175). The variables \<^verbatim>\<open>args\<close>, \<^verbatim>\<open>tools\<close> and
  \<^verbatim>\<open>history\<close> that the closure captures are arguments here, and \<open>conn\<close> is what the
  library does with the request of this exchange. The result is the exception that
  leaves \<^verbatim>\<open>ask\<close>, or the string it returns, with the session afterwards.
\<close>

definition ask ::
  "cli_args \<Rightarrow> tool list option \<Rightarrow> exn + stream \<Rightarrow> pystr \<Rightarrow> pystr \<Rightarrow> session
     \<Rightarrow> (exn + pystr) \<times> session" where
  "ask a tools conn mdl user_text s =
     (let s1 = s\<lparr>history := history s @ [user_turn user_text]\<rparr>;
          s2 = s1\<lparr>stdout := stdout s1 @
                  [Bar ''Assistant'' FG_GREEN,
                   Print (FG_GREEN @ BOLD @ ascii ''Assistant:'' @ RESET @ ascii '' '') []]\<rparr>;
          s3 = s2\<lparr>requests := requests s2 @
                  [\<lparr>req_model = mdl, req_input = history s2, req_tools = or_None tools\<rparr>]\<rparr>
      in case try_stream a conn of
           (os, Inl KeyboardInterrupt) \<Rightarrow>
             (Inl KeyboardInterrupt, s3\<lparr>stdout := stdout s3 @ os\<rparr>)
         | (os, Inl (Exception e)) \<Rightarrow>
             (Inr [],
              s3\<lparr>stdout := stdout s3 @ os @
                    [Bar ''Error'' FG_RED, Print (FG_RED @ e @ RESET) [10]]\<rparr>)
         | (os, Inr resp) \<Rightarrow>
             (Inr (reply_of resp),
              s3\<lparr>stdout := stdout s3 @ os,
                  history := history s3 @ [assistant_turn (reply_of resp)]\<rparr>))"

subsection \<open>The session\<close>

text \<open>
  What happens at the prompt of the interactive loop: \<^verbatim>\<open>input(...)\<close> returns a line, or
  it raises (\<^verbatim>\<open>KeyboardInterrupt\<close> when the user interrupts, \<^verbatim>\<open>EOFError\<close> at the end of
  the input). A line comes with what the library does with the request of the exchange
  that the line triggers, if it triggers one.
\<close>

datatype prompt = Line pystr "exn + stream" | Input_raises exn

definition you_prompt :: pystr where
  "you_prompt = BOLD @ ascii ''You:'' @ RESET @ ascii '' ''"

text \<open>
  The \<^verbatim>\<open>while True\<close> loop (lines 185 to 190), run on the prompts of a script. The result
  is the exception that left the loop, or \<open>None\<close> when the script is used up and the
  program waits at the prompt.
\<close>

fun interactive_loop ::
  "cli_args \<Rightarrow> tool list option \<Rightarrow> prompt list \<Rightarrow> session \<Rightarrow> exn option \<times> session" where
  "interactive_loop a tools [] s =
     (None, s\<lparr>stdout := stdout s @ [Bar ''You'' FG_CYAN, Prompt you_prompt]\<rparr>)"
| "interactive_loop a tools (Input_raises x # rest) s =
     (Some x, s\<lparr>stdout := stdout s @ [Bar ''You'' FG_CYAN, Prompt you_prompt]\<rparr>)"
| "interactive_loop a tools (Line l conn # rest) s =
     (let s1 = s\<lparr>stdout := stdout s @ [Bar ''You'' FG_CYAN, Prompt you_prompt]\<rparr>;
          user_text = strip l
      in if user_text = [] then interactive_loop a tools rest s1
         else (case ask a tools conn (model a) user_text s1 of
                 (Inl x, s2) \<Rightarrow> (Some x, s2)
               | (Inr reply, s2) \<Rightarrow> interactive_loop a tools rest s2))"

text \<open>Whether \<^verbatim>\<open>if args.message:\<close> holds: the message is neither \<^verbatim>\<open>None\<close> nor empty.\<close>

definition has_message :: "cli_args \<Rightarrow> bool" where
  "has_message a = (case message a of None \<Rightarrow> False | Some m \<Rightarrow> m \<noteq> [])"

text \<open>
  The optional first turn from the command line (lines 179 to 182). \<open>first\<close> is what
  the library does with the request of the exchange that \<^verbatim>\<open>--message\<close> triggers. The
  result is the exception that left \<^verbatim>\<open>ask\<close>, if one did.
\<close>

definition first_turn ::
  "cli_args \<Rightarrow> tool list option \<Rightarrow> exn + stream \<Rightarrow> session \<Rightarrow> exn option \<times> session" where
  "first_turn a tools first s =
     (case message a of
        None \<Rightarrow> (None, s)
      | Some m \<Rightarrow>
          if m = [] then (None, s)
          else
            (let s1 = s\<lparr>stdout := stdout s @
                         [Bar ''You'' FG_CYAN,
                          Print (BOLD @ ascii ''You:'' @ RESET @ ascii '' '' @ m) [10]]\<rparr>
             in case ask a tools first (model a) m s1 of
                  (Inl x, s2) \<Rightarrow> (Some x, s2)
                | (Inr reply, s2) \<Rightarrow> (None, s2)))"

text \<open>The session as \<^verbatim>\<open>main\<close> starts it: \<^verbatim>\<open>history\<close> holds the system turn.\<close>

definition session0 :: session where
  "session0 = \<lparr>history = [system_turn], requests = [], stdout = []\<rparr>"

text \<open>The body of the \<^verbatim>\<open>try\<close> statement of \<^verbatim>\<open>main\<close> (lines 178 to 190).\<close>

definition main_try ::
  "cli_args \<Rightarrow> tool list option \<Rightarrow> exn + stream \<Rightarrow> prompt list \<Rightarrow> exn option \<times> session" where
  "main_try a tools first script =
     (case first_turn a tools first session0 of
        (Some x, s) \<Rightarrow> (Some x, s)
      | (None, s) \<Rightarrow> interactive_loop a tools script s)"

text \<open>
  How a run of \<^verbatim>\<open>main\<close> stands after a script: it waits at the prompt, it has ended
  after an interrupt, or an exception has left \<^verbatim>\<open>main\<close>.
\<close>

datatype status = Waiting | Exited | Crashed exn

text \<open>
  \<^verbatim>\<open>main\<close> from line 47 on, with the arguments parsed and the client constructed.
\<close>

definition main :: "cli_args \<Rightarrow> exn + stream \<Rightarrow> prompt list \<Rightarrow> status \<times> session" where
  "main a first script =
     (case main_try a (tools_of a) first script of
        (None, s) \<Rightarrow> (Waiting, s)
      | (Some KeyboardInterrupt, s) \<Rightarrow>
          (Exited,
           s\<lparr>stdout := stdout s @
                 [Print ([10] @ DIM @ ascii ''Bye! '' @ [128075] @ RESET) [10]]\<rparr>)
      | (Some (Exception e), s) \<Rightarrow> (Crashed (Exception e), s))"

subsection \<open>Notions of the specification\<close>

text \<open>
  An exchange is successful when the \<^verbatim>\<open>try\<close> statement of \<^verbatim>\<open>ask\<close> is left without
  an exception, that is, with a final response.
\<close>

definition succeeds :: "cli_args \<Rightarrow> exn + stream \<Rightarrow> bool" where
  "succeeds a conn = (case snd (try_stream a conn) of Inl x \<Rightarrow> False | Inr resp \<Rightarrow> True)"

text \<open>Every exchange that the prompts of a script trigger is successful.\<close>

fun all_succeed :: "cli_args \<Rightarrow> prompt list \<Rightarrow> bool" where
  "all_succeed a [] = True"
| "all_succeed a (Input_raises x # rest) = True"
| "all_succeed a (Line l conn # rest) =
     ((if strip l = [] then True else succeeds a conn) \<and> all_succeed a rest)"

text \<open>
  The number of exchanges that the prompts of a script trigger, and the number of
  exchanges of a run.
\<close>

fun exchanges :: "prompt list \<Rightarrow> nat" where
  "exchanges [] = 0"
| "exchanges (Input_raises x # rest) = 0"
| "exchanges (Line l conn # rest) = (if strip l = [] then 0 else 1) + exchanges rest"

definition exchange_count :: "cli_args \<Rightarrow> prompt list \<Rightarrow> nat" where
  "exchange_count a script = (if has_message a then 1 else 0) + exchanges script"


subsection \<open>Concrete events, streams and sessions\<close>

text \<open>An event object that has the attribute \<^verbatim>\<open>type\<close> and no other.\<close>

definition blank_event :: "string \<Rightarrow> event" where
  "blank_event t =
     \<lparr>type = Some t, delta = None, tool_name = None, call_id = None, args = None,
      args_delta = None, output_text = None, is_streaming = None, output_image = None,
      result = None, error = None\<rparr>"

definition text_delta :: "pystr \<Rightarrow> event" where
  "text_delta d = (blank_event ''response.output_text.delta'')\<lparr>delta := Some d\<rparr>"

definition text_done :: event where
  "text_done = blank_event ''response.output_text.done''"


text \<open>The scripted event sequence: three text fragments and the completion marker.\<close>

definition hello_events :: "item list" where
  "hello_events =
     [Yield (text_delta (ascii ''Hel'')), Yield (text_delta (ascii ''lo'')),
      Yield (text_delta (ascii ''!'')), Yield text_done]"

text \<open>The arguments of a run without flags.\<close>

definition args0 :: cli_args where
  "args0 = \<lparr>message = None, model = ascii ''gpt-5-mini'', no_tools = False, trace = False\<rparr>"

text \<open>A stream that yields one fragment and then loses the connection.\<close>

definition broken_stream :: stream where
  "broken_stream =
     \<lparr>items = [Yield (text_delta (ascii ''Hel'')), Raise (Exception (ascii ''connection lost''))],
      get_final_response = Inr \<lparr>resp_output_text = Some (ascii ''Hel'')\<rparr>\<rparr>"

text \<open>
  A stream that yields the scripted events and whose final response carries their
  concatenation.
\<close>

definition hello_stream :: stream where
  "hello_stream =
     \<lparr>items = hello_events,
      get_final_response = Inr \<lparr>resp_output_text = Some (ascii ''Hello!'')\<rparr>\<rparr>"

text \<open>A script of three lines, the second of which is blank.\<close>

definition script0 :: "prompt list" where
  "script0 =
     [Line (ascii '' first '') (Inr hello_stream),
      Line (ascii ''   '') (Inr broken_stream),
      Line (ascii ''second'') (Inr hello_stream)]"

section \<open>Properties of one exchange\<close>

subsection \<open>What \<open>ask\<close> does to the session\<close>

lemma ask_history:
  "history (snd (ask a tools conn mdl u s)) =
     history s @ user_turn u #
       (case snd (try_stream a conn) of
          Inl x \<Rightarrow> []
        | Inr resp \<Rightarrow> [assistant_turn (reply_of resp)])"
  by (simp add: ask_def Let_def split: prod.splits sum.splits exn.splits)

lemma ask_requests:
  "requests (snd (ask a tools conn mdl u s)) =
     requests s @
       [\<lparr>req_model = mdl, req_input = history s @ [user_turn u], req_tools = or_None tools\<rparr>]"
  by (simp add: ask_def Let_def split: prod.splits sum.splits exn.splits)

lemma ask_result:
  "fst (ask a tools conn mdl u s) =
     (case snd (try_stream a conn) of
        Inl KeyboardInterrupt \<Rightarrow> Inl KeyboardInterrupt
      | Inl (Exception e) \<Rightarrow> Inr []
      | Inr resp \<Rightarrow> Inr (reply_of resp))"
  by (simp add: ask_def Let_def split: prod.splits sum.splits exn.splits)

lemma try_stream_outcome:
  "snd (try_stream a (Inr st)) =
     (case snd (for_events a (items st)) of
        Some x \<Rightarrow> Inl x
      | None \<Rightarrow> get_final_response st)"
  by (simp add: try_stream_def split: prod.splits option.splits)

text \<open>
  The three ways in which the \<^verbatim>\<open>try\<close> statement raises: the stream cannot be
  established, the loop raises, or the loop ends and the final response cannot be
  fetched.
\<close>

lemma try_stream_raises:
  "snd (try_stream a conn) = Inl x \<longleftrightarrow>
     conn = Inl x
     \<or> (\<exists>st. conn = Inr st
            \<and> (snd (for_events a (items st)) = Some x
                \<or> snd (for_events a (items st)) = None \<and> get_final_response st = Inl x))"
proof (cases conn)
  case (Inl y)
  then show ?thesis by (simp add: try_stream_def)
next
  case (Inr st)
  then show ?thesis by (auto simp: try_stream_outcome split: option.splits)
qed

subsection \<open>The loop after an error event\<close>






text \<open>
  Claim C2. An exception other than \<^verbatim>\<open>KeyboardInterrupt\<close> that is raised in the \<^verbatim>\<open>try\<close>
  statement (while the stream is established, while its events are consumed or while
  the final response is fetched) does not leave \<^verbatim>\<open>ask\<close>: the call returns the empty
  string, and the turn sequence is the one before the call with the user turn of this
  exchange appended and no assistant turn.
\<close>

theorem ask_absorbs_exception:
  assumes "snd (try_stream a conn) = Inl (Exception e)"
  shows "fst (ask a tools conn mdl u s) = Inr []
         \<and> history (snd (ask a tools conn mdl u s)) = history s @ [user_turn u]"
  using assms by (simp add: ask_history ask_result)

theorem ask_absorbs_exception_witness:
  "snd (try_stream args0 (Inr broken_stream)) = Inl (Exception (ascii ''connection lost''))
   \<and> fst (ask args0 None (Inr broken_stream) (model args0) (ascii ''hi'') session0) = Inr []
   \<and> history (snd (ask args0 None (Inr broken_stream) (model args0) (ascii ''hi'') session0)) =
       [system_turn, user_turn (ascii ''hi'')]"
proof -
  have h: "snd (try_stream args0 (Inr broken_stream)) =
             Inl (Exception (ascii ''connection lost''))"
    by (simp add: try_stream_def broken_stream_def handle_event_def text_delta_def
        blank_event_def)
  show ?thesis
    using h ask_absorbs_exception [OF h, of None "model args0" "ascii ''hi''" session0]
    by (simp add: session0_def)
qed






subsection \<open>Tool-call events\<close>

text \<open>
  Claim C8, as the source has it. \<open>a\<lparr>trace := b\<rparr>\<close> is any command line with the trace
  flag \<open>b\<close>, and \<open>ev\<lparr>type := Some t\<rparr>\<close> any event of type \<open>t\<close>. Without \<^verbatim>\<open>--trace\<close>, an
  event of each of the four tool-call types produces no output and the loop goes on.
  With \<^verbatim>\<open>--trace\<close>:
  \<^item> a begin event produces the banner \<open>Tool Call Begin\<close>, the line of the tool name,
    the line of the call identifier when it is present and not empty, and the formatted
    arguments when they are present and true (an event without tool name produces the
    banner only, and \<^verbatim>\<open>AttributeError\<close> is raised);
  \<^item> an argument-fragment event produces its label and the formatted fragment when the
    fragment is present and true, and nothing otherwise;
  \<^item> an output event produces the banner \<open>Tool Output\<close>, the output text when it is
    present and not empty (followed by a newline unless the event is streaming), and the
    line of the image placeholder when an image is present and true (an event with an
    output text and without the streaming flag produces the banner only, and
    \<^verbatim>\<open>AttributeError\<close> is raised);
  \<^item> a completion event produces the banner \<open>Tool Call Completed\<close> and the formatted
    result when it is present and true.

  So each begin, output and completion event produces exactly one banner, as its first
  output, and the loop goes on after every event that raises nothing.
\<close>

theorem tool_call_rendering:
  "handle_event (a\<lparr>trace := False\<rparr>) (ev\<lparr>type := Some ''response.tool_call.begin''\<rparr>) =
     ([], Inr Continue)
   \<and> handle_event (a\<lparr>trace := False\<rparr>) (ev\<lparr>type := Some ''response.tool_call.delta''\<rparr>) =
     ([], Inr Continue)
   \<and> handle_event (a\<lparr>trace := False\<rparr>) (ev\<lparr>type := Some ''response.tool_call.output''\<rparr>) =
     ([], Inr Continue)
   \<and> handle_event (a\<lparr>trace := False\<rparr>) (ev\<lparr>type := Some ''response.tool_call.completed''\<rparr>) =
     ([], Inr Continue)
   \<and> filter is_Bar (fst (handle_event (a\<lparr>trace := True\<rparr>)
                            (ev\<lparr>type := Some ''response.tool_call.begin''\<rparr>))) =
       [Bar ''Tool Call Begin'' FG_YELLOW]
   \<and> fst (handle_event (a\<lparr>trace := True\<rparr>) (ev\<lparr>type := Some ''response.tool_call.delta''\<rparr>)) =
       (case args_delta ev of
          None \<Rightarrow> []
        | Some d \<Rightarrow> if truthy d then [Kv ''args_delta'' [] FG_YELLOW, Print_json d] else [])
   \<and> filter is_Bar (fst (handle_event (a\<lparr>trace := True\<rparr>)
                            (ev\<lparr>type := Some ''response.tool_call.output''\<rparr>))) =
       [Bar ''Tool Output'' FG_BLUE]
   \<and> filter is_Bar (fst (handle_event (a\<lparr>trace := True\<rparr>)
                            (ev\<lparr>type := Some ''response.tool_call.completed''\<rparr>))) =
       [Bar ''Tool Call Completed'' FG_YELLOW]
   \<and> take 1 (fst (handle_event (a\<lparr>trace := True\<rparr>)
                     (ev\<lparr>type := Some ''response.tool_call.begin''\<rparr>))) =
       [Bar ''Tool Call Begin'' FG_YELLOW]
   \<and> take 1 (fst (handle_event (a\<lparr>trace := True\<rparr>)
                     (ev\<lparr>type := Some ''response.tool_call.output''\<rparr>))) =
       [Bar ''Tool Output'' FG_BLUE]
   \<and> take 1 (fst (handle_event (a\<lparr>trace := True\<rparr>)
                     (ev\<lparr>type := Some ''response.tool_call.completed''\<rparr>))) =
       [Bar ''Tool Call Completed'' FG_YELLOW]
   \<and> handle_event (a\<lparr>trace := True\<rparr>) (ev\<lparr>type := Some ''response.tool_call.begin''\<rparr>) =
       (case tool_name ev of
          None \<Rightarrow> ([Bar ''Tool Call Begin'' FG_YELLOW], Inl (attribute_error ''tool''))
        | Some n \<Rightarrow>
            ([Bar ''Tool Call Begin'' FG_YELLOW, Kv ''tool'' n FG_YELLOW]
             @ (case call_id ev of
                  None \<Rightarrow> []
                | Some c \<Rightarrow> if c = [] then [] else [Kv ''call_id'' c FG_YELLOW])
             @ (case args ev of
                  None \<Rightarrow> []
                | Some v \<Rightarrow> if truthy v then [Print_json v] else []),
             Inr Continue))
   \<and> handle_event (a\<lparr>trace := True\<rparr>) (ev\<lparr>type := Some ''response.tool_call.delta''\<rparr>) =
       (case args_delta ev of
          None \<Rightarrow> ([], Inr Continue)
        | Some d \<Rightarrow>
            (if truthy d then [Kv ''args_delta'' [] FG_YELLOW, Print_json d] else [],
             Inr Continue))
   \<and> handle_event (a\<lparr>trace := True\<rparr>) (ev\<lparr>type := Some ''response.tool_call.output''\<rparr>) =
       (case output_text ev of
          None \<Rightarrow>
            (Bar ''Tool Output'' FG_BLUE #
               (case output_image ev of
                  None \<Rightarrow> []
                | Some i \<Rightarrow>
                    if truthy i then [Kv ''output_image'' (ascii ''[binary image]'') FG_BLUE]
                    else []),
             Inr Continue)
        | Some t \<Rightarrow>
            if t = [] then
              (Bar ''Tool Output'' FG_BLUE #
                 (case output_image ev of
                    None \<Rightarrow> []
                  | Some i \<Rightarrow>
                      if truthy i then [Kv ''output_image'' (ascii ''[binary image]'') FG_BLUE]
                      else []),
               Inr Continue)
            else
              (case is_streaming ev of
                 None \<Rightarrow>
                   ([Bar ''Tool Output'' FG_BLUE], Inl (attribute_error ''is_streaming''))
               | Some b \<Rightarrow>
                   (Bar ''Tool Output'' FG_BLUE # Print t (if b then [] else [10]) #
                      (case output_image ev of
                         None \<Rightarrow> []
                       | Some i \<Rightarrow>
                           if truthy i
                           then [Kv ''output_image'' (ascii ''[binary image]'') FG_BLUE]
                           else []),
                    Inr Continue)))
   \<and> handle_event (a\<lparr>trace := True\<rparr>) (ev\<lparr>type := Some ''response.tool_call.completed''\<rparr>) =
       (Bar ''Tool Call Completed'' FG_YELLOW #
          (case result ev of
             None \<Rightarrow> []
           | Some r \<Rightarrow> if truthy r then [Print_json r] else []),
        Inr Continue)"
proof (intro conjI)
  show "handle_event (a\<lparr>trace := False\<rparr>) (ev\<lparr>type := Some ''response.tool_call.begin''\<rparr>) =
          ([], Inr Continue)"
    by (simp add: handle_event_def Let_def)
  show "handle_event (a\<lparr>trace := False\<rparr>) (ev\<lparr>type := Some ''response.tool_call.delta''\<rparr>) =
          ([], Inr Continue)"
    by (simp add: handle_event_def Let_def)
  show "handle_event (a\<lparr>trace := False\<rparr>) (ev\<lparr>type := Some ''response.tool_call.output''\<rparr>) =
          ([], Inr Continue)"
    by (simp add: handle_event_def Let_def)
  show "handle_event (a\<lparr>trace := False\<rparr>)
          (ev\<lparr>type := Some ''response.tool_call.completed''\<rparr>) = ([], Inr Continue)"
    by (simp add: handle_event_def Let_def)
  show "filter is_Bar (fst (handle_event (a\<lparr>trace := True\<rparr>)
                               (ev\<lparr>type := Some ''response.tool_call.begin''\<rparr>))) =
          [Bar ''Tool Call Begin'' FG_YELLOW]"
    by (simp add: handle_event_def Let_def split: option.splits)
  show "fst (handle_event (a\<lparr>trace := True\<rparr>)
               (ev\<lparr>type := Some ''response.tool_call.delta''\<rparr>)) =
          (case args_delta ev of
             None \<Rightarrow> []
           | Some d \<Rightarrow> if truthy d then [Kv ''args_delta'' [] FG_YELLOW, Print_json d] else [])"
    by (simp add: handle_event_def Let_def split: option.splits)
  show "filter is_Bar (fst (handle_event (a\<lparr>trace := True\<rparr>)
                               (ev\<lparr>type := Some ''response.tool_call.output''\<rparr>))) =
          [Bar ''Tool Output'' FG_BLUE]"
    by (simp add: handle_event_def Let_def split: option.splits)
  show "filter is_Bar (fst (handle_event (a\<lparr>trace := True\<rparr>)
                               (ev\<lparr>type := Some ''response.tool_call.completed''\<rparr>))) =
          [Bar ''Tool Call Completed'' FG_YELLOW]"
    by (simp add: handle_event_def Let_def split: option.splits)
  show "take 1 (fst (handle_event (a\<lparr>trace := True\<rparr>)
                       (ev\<lparr>type := Some ''response.tool_call.begin''\<rparr>))) =
          [Bar ''Tool Call Begin'' FG_YELLOW]"
    by (simp add: handle_event_def Let_def split: option.splits)
  show "take 1 (fst (handle_event (a\<lparr>trace := True\<rparr>)
                       (ev\<lparr>type := Some ''response.tool_call.output''\<rparr>))) =
          [Bar ''Tool Output'' FG_BLUE]"
    by (simp add: handle_event_def Let_def split: option.splits)
  show "take 1 (fst (handle_event (a\<lparr>trace := True\<rparr>)
                       (ev\<lparr>type := Some ''response.tool_call.completed''\<rparr>))) =
          [Bar ''Tool Call Completed'' FG_YELLOW]"
    by (simp add: handle_event_def Let_def split: option.splits)
  show "handle_event (a\<lparr>trace := True\<rparr>) (ev\<lparr>type := Some ''response.tool_call.begin''\<rparr>) =
       (case tool_name ev of
          None \<Rightarrow> ([Bar ''Tool Call Begin'' FG_YELLOW], Inl (attribute_error ''tool''))
        | Some n \<Rightarrow>
            ([Bar ''Tool Call Begin'' FG_YELLOW, Kv ''tool'' n FG_YELLOW]
             @ (case call_id ev of
                  None \<Rightarrow> []
                | Some c \<Rightarrow> if c = [] then [] else [Kv ''call_id'' c FG_YELLOW])
             @ (case args ev of
                  None \<Rightarrow> []
                | Some v \<Rightarrow> if truthy v then [Print_json v] else []),
             Inr Continue))"
    by (simp add: handle_event_def Let_def split: option.splits)
  show "handle_event (a\<lparr>trace := True\<rparr>) (ev\<lparr>type := Some ''response.tool_call.delta''\<rparr>) =
       (case args_delta ev of
          None \<Rightarrow> ([], Inr Continue)
        | Some d \<Rightarrow>
            (if truthy d then [Kv ''args_delta'' [] FG_YELLOW, Print_json d] else [],
             Inr Continue))"
    by (simp add: handle_event_def Let_def split: option.splits)
  show "handle_event (a\<lparr>trace := True\<rparr>) (ev\<lparr>type := Some ''response.tool_call.output''\<rparr>) =
       (case output_text ev of
          None \<Rightarrow>
            (Bar ''Tool Output'' FG_BLUE #
               (case output_image ev of
                  None \<Rightarrow> []
                | Some i \<Rightarrow>
                    if truthy i then [Kv ''output_image'' (ascii ''[binary image]'') FG_BLUE]
                    else []),
             Inr Continue)
        | Some t \<Rightarrow>
            if t = [] then
              (Bar ''Tool Output'' FG_BLUE #
                 (case output_image ev of
                    None \<Rightarrow> []
                  | Some i \<Rightarrow>
                      if truthy i then [Kv ''output_image'' (ascii ''[binary image]'') FG_BLUE]
                      else []),
               Inr Continue)
            else
              (case is_streaming ev of
                 None \<Rightarrow>
                   ([Bar ''Tool Output'' FG_BLUE], Inl (attribute_error ''is_streaming''))
               | Some b \<Rightarrow>
                   (Bar ''Tool Output'' FG_BLUE # Print t (if b then [] else [10]) #
                      (case output_image ev of
                         None \<Rightarrow> []
                       | Some i \<Rightarrow>
                           if truthy i
                           then [Kv ''output_image'' (ascii ''[binary image]'') FG_BLUE]
                           else []),
                    Inr Continue)))"
    by (simp add: handle_event_def Let_def split: option.splits)
  show "handle_event (a\<lparr>trace := True\<rparr>)
          (ev\<lparr>type := Some ''response.tool_call.completed''\<rparr>) =
       (Bar ''Tool Call Completed'' FG_YELLOW #
          (case result ev of
             None \<Rightarrow> []
           | Some r \<Rightarrow> if truthy r then [Print_json r] else []),
        Inr Continue)"
    by (simp add: handle_event_def Let_def split: option.splits)
qed

text \<open>
  The claim as the specification words it (a rendering action for every tool-call
  event in trace mode) fails at an argument-fragment event that carries no fragment:
  with \<^verbatim>\<open>--trace\<close> the event produces no output at all.
\<close>

theorem tool_call_rendering_counterexample:
  "fst (handle_event (args0\<lparr>trace := True\<rparr>) (blank_event ''response.tool_call.delta'')) = []"
  by (simp add: handle_event_def blank_event_def)

section \<open>Properties of a session\<close>

subsection \<open>The history and the requests of \<open>main\<close>\<close>

lemma main_history:
  "history (snd (main a first script)) =
     history (snd (main_try a (tools_of a) first script))"
  by (simp add: main_def split: prod.splits option.splits exn.splits)

lemma main_requests:
  "requests (snd (main a first script)) =
     requests (snd (main_try a (tools_of a) first script))"
  by (simp add: main_def split: prod.splits option.splits exn.splits)

lemma first_turn_session:
  "requests (snd (first_turn a tools first s)) =
     requests s @
       (case message a of
          None \<Rightarrow> []
        | Some m \<Rightarrow>
            if m = [] then []
            else [\<lparr>req_model = model a, req_input = history s @ [user_turn m],
                   req_tools = or_None tools\<rparr>])
   \<and> history (snd (first_turn a tools first s)) =
     history s @
       (case message a of
          None \<Rightarrow> []
        | Some m \<Rightarrow>
            if m = [] then []
            else user_turn m #
              (case snd (try_stream a first) of
                 Inl x \<Rightarrow> []
               | Inr resp \<Rightarrow> [assistant_turn (reply_of resp)]))"
proof (cases "message a")
  case None
  then show ?thesis by (simp add: first_turn_def)
next
  case (Some m)
  show ?thesis
  proof (cases "m = []")
    case True
    with Some show ?thesis by (simp add: first_turn_def)
  next
    case False
    let ?s1 = "s\<lparr>stdout := stdout s @
                  [Bar ''You'' FG_CYAN,
                   Print (BOLD @ ascii ''You:'' @ RESET @ ascii '' '' @ m) [10]]\<rparr>"
    obtain res s2 where s2: "ask a tools first (model a) m ?s1 = (res, s2)"
      by (cases "ask a tools first (model a) m ?s1")
    have "snd (first_turn a tools first s) = s2"
      using Some False s2 by (cases res) (simp_all add: first_turn_def)
    moreover have "requests s2 = requests s @
        [\<lparr>req_model = model a, req_input = history s @ [user_turn m],
          req_tools = or_None tools\<rparr>]"
      using ask_requests [of a tools first "model a" m ?s1] s2 by simp
    moreover have "history s2 = history s @ user_turn m #
        (case snd (try_stream a first) of
           Inl x \<Rightarrow> []
         | Inr resp \<Rightarrow> [assistant_turn (reply_of resp)])"
      using ask_history [of a tools first "model a" m ?s1] s2 by simp
    ultimately show ?thesis using Some False by simp
  qed
qed

subsection \<open>Successful exchanges\<close>

lemma ask_succeeds_history:
  "succeeds a conn \<Longrightarrow>
     length (history (snd (ask a tools conn mdl u s))) = length (history s) + 2"
  by (simp add: ask_history succeeds_def split: sum.splits)

lemma ask_succeeds_result:
  "succeeds a conn \<Longrightarrow> \<exists>r. fst (ask a tools conn mdl u s) = Inr r"
  by (simp add: ask_result succeeds_def split: sum.splits)

lemma interactive_loop_lengths:
  "all_succeed a script \<Longrightarrow>
     length (requests (snd (interactive_loop a tools script s))) =
       length (requests s) + exchanges script
     \<and> length (history (snd (interactive_loop a tools script s))) =
       length (history s) + 2 * exchanges script"
proof (induction script arbitrary: s)
  case Nil
  show ?case by simp
next
  case (Cons p script)
  show ?case
  proof (cases p)
    case (Input_raises x)
    then show ?thesis by simp
  next
    case (Line l conn)
    show ?thesis
    proof (cases "strip l = []")
      case True
      with Line Cons show ?thesis by simp
    next
      case False
      with Line Cons.prems have ok: "succeeds a conn" and rest: "all_succeed a script"
        by simp_all
      let ?s1 = "s\<lparr>stdout := stdout s @ [Bar ''You'' FG_CYAN, Prompt you_prompt]\<rparr>"
      obtain r where r: "fst (ask a tools conn (model a) (strip l) ?s1) = Inr r"
        using ask_succeeds_result [OF ok] by blast
      obtain s2 where s2: "ask a tools conn (model a) (strip l) ?s1 = (Inr r, s2)"
        using r by (cases "ask a tools conn (model a) (strip l) ?s1") simp
      have h: "length (history s2) = length (history s) + 2"
        using ask_succeeds_history [OF ok, of tools "model a" "strip l" ?s1] s2 by simp
      have q: "length (requests s2) = length (requests s) + 1"
        using ask_requests [of a tools conn "model a" "strip l" ?s1] s2 by simp
      show ?thesis
        using Line False s2 h q Cons.IH [OF rest, of s2] by simp
    qed
  qed
qed

lemma first_turn_lengths:
  assumes "has_message a \<longrightarrow> succeeds a first"
  shows "fst (first_turn a tools first s) = None
     \<and> length (requests (snd (first_turn a tools first s))) =
         length (requests s) + (if has_message a then 1 else 0)
     \<and> length (history (snd (first_turn a tools first s))) =
         length (history s) + 2 * (if has_message a then 1 else 0)"
proof (cases "has_message a")
  case False
  then show ?thesis
    by (simp add: first_turn_def has_message_def split: option.splits)
next
  case True
  then obtain m where m: "message a = Some m" "m \<noteq> []"
    by (auto simp: has_message_def split: option.splits)
  from True assms have ok: "succeeds a first" by simp
  let ?s1 = "s\<lparr>stdout := stdout s @
                [Bar ''You'' FG_CYAN,
                 Print (BOLD @ ascii ''You:'' @ RESET @ ascii '' '' @ m) [10]]\<rparr>"
  obtain r where r: "fst (ask a tools first (model a) m ?s1) = Inr r"
    using ask_succeeds_result [OF ok] by blast
  obtain s2 where s2: "ask a tools first (model a) m ?s1 = (Inr r, s2)"
    using r by (cases "ask a tools first (model a) m ?s1") simp
  have h: "length (history s2) = length (history s) + 2"
    using ask_succeeds_history [OF ok, of tools "model a" m ?s1] s2 by simp
  have q: "length (requests s2) = length (requests s) + 1"
    using ask_requests [of a tools first "model a" m ?s1] s2 by simp
  show ?thesis
    using True m s2 h q by (simp add: first_turn_def)
qed

lemma main_lengths:
  assumes "has_message a \<longrightarrow> succeeds a first" and "all_succeed a script"
  shows "length (requests (snd (main a first script))) = exchange_count a script
       \<and> length (history (snd (main a first script))) = 1 + 2 * exchange_count a script"
proof -
  obtain s where s: "first_turn a (tools_of a) first session0 = (None, s)"
    using first_turn_lengths [OF assms(1), of "tools_of a" session0]
    by (cases "first_turn a (tools_of a) first session0") simp
  have l: "length (requests s) = (if has_message a then 1 else 0)"
    "length (history s) = 1 + 2 * (if has_message a then 1 else 0)"
    using first_turn_lengths [OF assms(1), of "tools_of a" session0] s
    by (simp_all add: session0_def)
  show ?thesis
    using s l interactive_loop_lengths [OF assms(2), of "tools_of a" s]
    by (simp add: main_history main_requests main_try_def exchange_count_def)
qed

lemma hello_succeeds: "succeeds a (Inr hello_stream)"
  by (simp add: succeeds_def try_stream_def hello_stream_def hello_events_def handle_event_def
      text_delta_def text_done_def blank_event_def)

lemma ascii_Nil: "ascii t = [] \<longleftrightarrow> t = []"
  by (simp add: ascii_def)

lemma strip_examples:
  "strip (ascii '' first '') = ascii ''first''"
  "strip (ascii ''   '') = []"
  "strip (ascii ''second'') = ascii ''second''"
  by (simp_all add: strip_def ascii_def isspace_def)

lemma script0_succeeds: "all_succeed a script0"
  by (simp add: script0_def strip_examples hello_succeeds ascii_Nil)

lemma script0_exchanges: "exchanges script0 = 2"
  by (simp add: script0_def strip_examples ascii_Nil)

text \<open>
  Claim C3. In a run in which every exchange is successful, the number of requests sent
  is the number \<open>N\<close> of exchanges that the command line and the lines of the script
  trigger, and the turn sequence has \<open>1 + 2 * N\<close> elements.
\<close>

theorem successful_exchanges_length:
  assumes "has_message a \<longrightarrow> succeeds a first" and "all_succeed a script"
  shows "length (requests (snd (main a first script))) = exchange_count a script
       \<and> length (history (snd (main a first script))) = 1 + 2 * exchange_count a script"
  using assms by (rule main_lengths)

text \<open>
  The theorem at a run with a message on the command line and the script of three
  lines: three exchanges, seven turns.
\<close>

theorem successful_exchanges_length_witness:
  "has_message (args0\<lparr>message := Some (ascii ''go'')\<rparr>)
   \<and> succeeds (args0\<lparr>message := Some (ascii ''go'')\<rparr>) (Inr hello_stream)
   \<and> all_succeed (args0\<lparr>message := Some (ascii ''go'')\<rparr>) script0
   \<and> exchange_count (args0\<lparr>message := Some (ascii ''go'')\<rparr>) script0 = 3
   \<and> length (requests (snd (main (args0\<lparr>message := Some (ascii ''go'')\<rparr>)
                               (Inr hello_stream) script0))) = 3
   \<and> length (history (snd (main (args0\<lparr>message := Some (ascii ''go'')\<rparr>)
                              (Inr hello_stream) script0))) = 7"
proof -
  have m: "has_message (args0\<lparr>message := Some (ascii ''go'')\<rparr>)"
    by (simp add: has_message_def ascii_Nil)
  have h: "has_message (args0\<lparr>message := Some (ascii ''go'')\<rparr>) \<longrightarrow>
             succeeds (args0\<lparr>message := Some (ascii ''go'')\<rparr>) (Inr hello_stream)"
    by (simp add: hello_succeeds)
  have s: "all_succeed (args0\<lparr>message := Some (ascii ''go'')\<rparr>) script0"
    by (rule script0_succeeds)
  have n: "exchange_count (args0\<lparr>message := Some (ascii ''go'')\<rparr>) script0 = 3"
    using m by (simp add: exchange_count_def script0_exchanges)
  show ?thesis
    using m s n hello_succeeds [of "args0\<lparr>message := Some (ascii ''go'')\<rparr>"]
      successful_exchanges_length [OF h s]
    by simp
qed

subsection \<open>Blank lines\<close>

lemma dropWhile_all_iff:
  "(\<forall>c\<in>set (dropWhile P l). P c) \<longleftrightarrow> (\<forall>c\<in>set l. P c)"
proof (induction l)
  case Nil
  show ?case by simp
next
  case (Cons x l)
  show ?case using Cons.IH by (cases "P x") auto
qed

lemma strip_empty_iff: "strip l = [] \<longleftrightarrow> (\<forall>c\<in>set l. isspace c)"
  by (simp add: strip_def dropWhile_eq_Nil_conv dropWhile_all_iff)

text \<open>
  Claim C5. A line read at the prompt that is empty or has only whitespace characters
  is skipped: the loop goes on with the rest of the script from a session that differs
  only by the banner and the prompt shown, so no user turn is appended and no request
  is sent; after such a line alone the program waits at the prompt again.
\<close>

theorem blank_line_skipped:
  assumes "list_all isspace l"
  shows "interactive_loop a tools (Line l conn # rest) s =
           interactive_loop a tools rest
             (s\<lparr>stdout := stdout s @ [Bar ''You'' FG_CYAN, Prompt you_prompt]\<rparr>)
         \<and> fst (interactive_loop a tools [Line l conn] s) = None
         \<and> history (snd (interactive_loop a tools [Line l conn] s)) = history s
         \<and> requests (snd (interactive_loop a tools [Line l conn] s)) = requests s"
  using assms by (simp add: strip_empty_iff list_all_iff)

theorem blank_line_skipped_witness:
  "list_all isspace (ascii ''   '')
   \<and> fst (interactive_loop args0 None [Line (ascii ''   '') (Inr hello_stream)] session0) = None
   \<and> history (snd (interactive_loop args0 None [Line (ascii ''   '') (Inr hello_stream)]
                      session0)) = history session0
   \<and> requests (snd (interactive_loop args0 None [Line (ascii ''   '') (Inr hello_stream)]
                       session0)) = requests session0"
proof -
  have h: "list_all isspace (ascii ''   '')"
    by (simp add: ascii_def isspace_def)
  show ?thesis
    using h blank_line_skipped [OF h, of args0 None "Inr hello_stream" "[]" session0]
    by blast
qed

subsection \<open>The tool descriptor of the requests\<close>

lemma interactive_loop_tools:
  "\<forall>r\<in>set (requests s). req_tools r = or_None tools \<Longrightarrow>
     \<forall>r\<in>set (requests (snd (interactive_loop a tools script s))).
       req_tools r = or_None tools"
proof (induction script arbitrary: s)
  case Nil
  then show ?case by simp
next
  case (Cons p script)
  show ?case
  proof (cases p)
    case (Input_raises x)
    with Cons.prems show ?thesis by simp
  next
    case (Line l conn)
    let ?s1 = "s\<lparr>stdout := stdout s @ [Bar ''You'' FG_CYAN, Prompt you_prompt]\<rparr>"
    have s1: "\<forall>r\<in>set (requests ?s1). req_tools r = or_None tools"
      using Cons.prems by simp
    show ?thesis
    proof (cases "strip l = []")
      case True
      with Line Cons.IH [OF s1] show ?thesis by simp
    next
      case False
      obtain res s2 where s2: "ask a tools conn (model a) (strip l) ?s1 = (res, s2)"
        by (cases "ask a tools conn (model a) (strip l) ?s1")
      have t2: "\<forall>r\<in>set (requests s2). req_tools r = or_None tools"
        using s1 ask_requests [of a tools conn "model a" "strip l" ?s1] s2 by simp
      show ?thesis
        using Line False s2 t2 Cons.IH [OF t2] by (cases res) simp_all
    qed
  qed
qed

lemma main_try_tools:
  "\<forall>r\<in>set (requests (snd (main_try a tools first script))). req_tools r = or_None tools"
proof -
  have f: "\<forall>r\<in>set (requests (snd (first_turn a tools first session0))).
             req_tools r = or_None tools"
    by (auto simp: first_turn_session session0_def split: option.splits)
  obtain x s where s: "first_turn a tools first session0 = (x, s)"
    by (cases "first_turn a tools first session0")
  show ?thesis
    using f s interactive_loop_tools [of s tools a script]
    by (cases x) (simp_all add: main_try_def)
qed

text \<open>
  Claim C6. In a run with \<^verbatim>\<open>--no-tools\<close>, every request sent carries no tool descriptor
  (\<^verbatim>\<open>tools=None\<close>), whatever the other flags are, \<^verbatim>\<open>--trace\<close> among them.
\<close>

theorem no_tools_no_descriptor:
  assumes "no_tools a"
  shows "list_all (\<lambda>r. req_tools r = None) (requests (snd (main a first script)))"
  using assms main_try_tools [of a "tools_of a" first script]
  by (simp add: main_requests tools_of_def or_None_def list_all_iff)

theorem no_tools_no_descriptor_witness:
  "no_tools (args0\<lparr>no_tools := True, trace := True\<rparr>)
   \<and> length (requests (snd (main (args0\<lparr>no_tools := True, trace := True\<rparr>)
                               (Inr hello_stream) script0))) = 2
   \<and> list_all (\<lambda>r. req_tools r = None)
        (requests (snd (main (args0\<lparr>no_tools := True, trace := True\<rparr>)
                          (Inr hello_stream) script0)))"
proof -
  have h: "no_tools (args0\<lparr>no_tools := True, trace := True\<rparr>)" by simp
  have m: "has_message (args0\<lparr>no_tools := True, trace := True\<rparr>) \<longrightarrow>
             succeeds (args0\<lparr>no_tools := True, trace := True\<rparr>) (Inr hello_stream)"
    by (simp add: hello_succeeds)
  have n: "exchange_count (args0\<lparr>no_tools := True, trace := True\<rparr>) script0 = 2"
    by (simp add: exchange_count_def has_message_def args0_def script0_exchanges)
  show ?thesis
    using h n main_lengths [OF m script0_succeeds]
      no_tools_no_descriptor [OF h, of "Inr hello_stream" script0]
    by simp
qed

subsection \<open>The turn sequence only grows\<close>

lemma ask_grows:
  "prefix (history s) (history (snd (ask a tools conn mdl u s)))
   \<and> prefix (requests s) (requests (snd (ask a tools conn mdl u s)))"
  by (simp add: ask_history ask_requests)

lemma interactive_loop_grows:
  "prefix (history s) (history (snd (interactive_loop a tools script s)))
   \<and> prefix (requests s) (requests (snd (interactive_loop a tools script s)))"
proof (induction script arbitrary: s)
  case Nil
  show ?case by simp
next
  case (Cons p script)
  show ?case
  proof (cases p)
    case (Input_raises x)
    then show ?thesis by simp
  next
    case (Line l conn)
    let ?s1 = "s\<lparr>stdout := stdout s @ [Bar ''You'' FG_CYAN, Prompt you_prompt]\<rparr>"
    show ?thesis
    proof (cases "strip l = []")
      case True
      with Line Cons.IH [of ?s1] show ?thesis by simp
    next
      case False
      obtain res s2 where s2: "ask a tools conn (model a) (strip l) ?s1 = (res, s2)"
        by (cases "ask a tools conn (model a) (strip l) ?s1")
      have g: "prefix (history s) (history s2) \<and> prefix (requests s) (requests s2)"
        using ask_grows [of ?s1 a tools conn "model a" "strip l"] s2 by simp
      show ?thesis
      proof (cases res)
        case (Inl x)
        with Line False s2 g show ?thesis by simp
      next
        case (Inr reply)
        have "prefix (history s) (history (snd (interactive_loop a tools script s2)))"
          using g Cons.IH [of s2] prefix_order.trans by blast
        moreover
        have "prefix (requests s) (requests (snd (interactive_loop a tools script s2)))"
          using g Cons.IH [of s2] prefix_order.trans by blast
        ultimately show ?thesis using Line False s2 Inr by simp
      qed
    qed
  qed
qed

lemma interactive_loop_extend:
  "prefix (history (snd (interactive_loop a tools script s)))
          (history (snd (interactive_loop a tools (script @ later) s)))"
proof (induction script arbitrary: s)
  case Nil
  show ?case using interactive_loop_grows [of s a tools later] by simp
next
  case (Cons p script)
  show ?case
  proof (cases p)
    case (Input_raises x)
    then show ?thesis by simp
  next
    case (Line l conn)
    let ?s1 = "s\<lparr>stdout := stdout s @ [Bar ''You'' FG_CYAN, Prompt you_prompt]\<rparr>"
    show ?thesis
    proof (cases "strip l = []")
      case True
      with Line Cons.IH [of ?s1] show ?thesis by simp
    next
      case False
      obtain res s2 where s2: "ask a tools conn (model a) (strip l) ?s1 = (res, s2)"
        by (cases "ask a tools conn (model a) (strip l) ?s1")
      show ?thesis
        using Line False s2 Cons.IH [of s2] by (cases res) simp_all
    qed
  qed
qed

lemma first_turn_grows:
  "prefix (history s) (history (snd (first_turn a tools first s)))
   \<and> prefix (requests s) (requests (snd (first_turn a tools first s)))"
  by (simp add: first_turn_session)

lemma main_try_extend:
  "prefix (history (snd (main_try a tools first script)))
          (history (snd (main_try a tools first (script @ later))))"
proof -
  obtain x s where s: "first_turn a tools first session0 = (x, s)"
    by (cases "first_turn a tools first session0")
  show ?thesis
    using s interactive_loop_extend [of a tools script s later]
    by (cases x) (simp_all add: main_try_def)
qed

lemma main_try_grows:
  "prefix (history (snd (first_turn a tools first session0)))
          (history (snd (main_try a tools first script)))
   \<and> prefix (requests (snd (first_turn a tools first session0)))
          (requests (snd (main_try a tools first script)))"
proof -
  obtain x s where s: "first_turn a tools first session0 = (x, s)"
    by (cases "first_turn a tools first session0")
  show ?thesis
    using s interactive_loop_grows [of s a tools script]
    by (cases x) (simp_all add: main_try_def)
qed

text \<open>
  Claim C7. After every script, the turn sequence of the run starts with the system
  turn that \<^verbatim>\<open>main\<close> put there. Nothing changes or removes a turn: the turn sequence
  after a script is a prefix of the turn sequence after any longer script, and the
  turn sequence before an exchange is a prefix of the one after it.
\<close>

theorem system_turn_first:
  "(\<exists>ts. history (snd (main a first script)) = system_turn # ts)
   \<and> prefix (history (snd (main a first script)))
            (history (snd (main a first (script @ later))))
   \<and> prefix (history s) (history (snd (ask a tools conn mdl u s)))"
proof (intro conjI)
  have "prefix (history session0) (history (snd (main_try a (tools_of a) first script)))"
    using first_turn_grows [of session0 a "tools_of a" first]
      main_try_grows [of a "tools_of a" first script] prefix_order.trans by blast
  then show "\<exists>ts. history (snd (main a first script)) = system_turn # ts"
    by (auto simp: main_history session0_def prefix_def)
next
  show "prefix (history (snd (main a first script)))
               (history (snd (main a first (script @ later))))"
    by (simp add: main_history main_try_extend)
next
  show "prefix (history s) (history (snd (ask a tools conn mdl u s)))"
    using ask_grows by blast
qed

subsection \<open>The message of the command line\<close>

text \<open>
  Claim C9. A message given with \<^verbatim>\<open>--message\<close> that is not the empty string triggers an
  exchange before the first prompt: the first request carries the system turn and a
  user turn whose text is exactly the text given (it is not stripped, and a text of
  whitespace only is sent as it is), and these are the first two turns of the turn
  sequence. When the message is \<^verbatim>\<open>None\<close> or empty, no exchange happens before the first
  prompt. The user turn is written out as the dictionary of lines 76 to 79.
\<close>

theorem initial_message_exchange:
  "(message a = Some m \<and> m \<noteq> [] \<longrightarrow>
      (\<exists>ts. history (snd (main a first script)) =
         system_turn
         # \<lparr>role = ''user'', content = [\<lparr>part_type = ''input_text'', part_text = m\<rparr>]\<rparr>
         # ts)
      \<and> (\<exists>rs. requests (snd (main a first script)) =
            \<lparr>req_model = model a,
              req_input =
                [system_turn,
                 \<lparr>role = ''user'', content = [\<lparr>part_type = ''input_text'', part_text = m\<rparr>]\<rparr>],
              req_tools = or_None (tools_of a)\<rparr> # rs))
   \<and> (message b = None \<or> message b = Some [] \<longrightarrow>
        history (snd (main b first [])) = [system_turn]
        \<and> requests (snd (main b first [])) = [])"
proof (intro conjI impI)
  assume m: "message a = Some m \<and> m \<noteq> []"
  have "prefix (system_turn # [user_turn m])
               (history (snd (first_turn a (tools_of a) first session0)))"
    using m by (simp add: first_turn_session session0_def)
  then have "prefix (system_turn # [user_turn m])
                    (history (snd (main_try a (tools_of a) first script)))"
    using main_try_grows [of a "tools_of a" first script] prefix_order.trans by blast
  then show "\<exists>ts. history (snd (main a first script)) =
         system_turn
         # \<lparr>role = ''user'', content = [\<lparr>part_type = ''input_text'', part_text = m\<rparr>]\<rparr>
         # ts"
    by (auto simp: main_history prefix_def user_turn_def)
  have "requests (snd (first_turn a (tools_of a) first session0)) =
          [\<lparr>req_model = model a, req_input = [system_turn, user_turn m],
            req_tools = or_None (tools_of a)\<rparr>]"
    using m by (simp add: first_turn_session session0_def)
  then have "prefix [\<lparr>req_model = model a, req_input = [system_turn, user_turn m],
                      req_tools = or_None (tools_of a)\<rparr>]
                    (requests (snd (main_try a (tools_of a) first script)))"
    using main_try_grows [of a "tools_of a" first script] by simp
  then show "\<exists>rs. requests (snd (main a first script)) =
            \<lparr>req_model = model a,
              req_input =
                [system_turn,
                 \<lparr>role = ''user'', content = [\<lparr>part_type = ''input_text'', part_text = m\<rparr>]\<rparr>],
              req_tools = or_None (tools_of a)\<rparr> # rs"
    by (auto simp: main_requests prefix_def user_turn_def)
next
  assume "message b = None \<or> message b = Some []"
  then have f: "first_turn b (tools_of b) first session0 = (None, session0)"
    by (auto simp: first_turn_def)
  show "history (snd (main b first [])) = [system_turn]"
    using f by (simp add: main_history main_try_def session0_def)
  show "requests (snd (main b first [])) = []"
    using f by (simp add: main_requests main_try_def session0_def)
qed

text \<open>
  The theorem at a message of three spaces, which \<^verbatim>\<open>strip\<close> would empty: the user turn
  carries the three spaces.
\<close>

theorem initial_message_exchange_witness:
  "message (args0\<lparr>message := Some (ascii ''   '')\<rparr>) = Some (ascii ''   '')
   \<and> ascii ''   '' \<noteq> []
   \<and> strip (ascii ''   '') = []
   \<and> (\<exists>ts. history (snd (main (args0\<lparr>message := Some (ascii ''   '')\<rparr>) (Inr hello_stream) [])) =
         system_turn
         # \<lparr>role = ''user'',
            content = [\<lparr>part_type = ''input_text'', part_text = ascii ''   ''\<rparr>]\<rparr>
         # ts)
   \<and> (\<exists>rs. requests (snd (main (args0\<lparr>message := Some (ascii ''   '')\<rparr>) (Inr hello_stream) [])) =
            \<lparr>req_model = model (args0\<lparr>message := Some (ascii ''   '')\<rparr>),
              req_input =
                [system_turn,
                 \<lparr>role = ''user'',
                   content = [\<lparr>part_type = ''input_text'', part_text = ascii ''   ''\<rparr>]\<rparr>],
              req_tools = or_None (tools_of (args0\<lparr>message := Some (ascii ''   '')\<rparr>))\<rparr> # rs)
   \<and> (message args0 = None \<or> message args0 = Some [])
   \<and> history (snd (main args0 (Inr hello_stream) [])) = [system_turn]
   \<and> requests (snd (main args0 (Inr hello_stream) [])) = []"
proof -
  have m: "message (args0\<lparr>message := Some (ascii ''   '')\<rparr>) = Some (ascii ''   '')
           \<and> ascii ''   '' \<noteq> []"
    by (simp add: ascii_Nil)
  have n: "message args0 = None \<or> message args0 = Some []"
    by (simp add: args0_def)
  show ?thesis
    using m n strip_examples(2)
      initial_message_exchange [of "args0\<lparr>message := Some (ascii ''   '')\<rparr>" "ascii ''   ''"
        "Inr hello_stream" "[]" args0]
    by blast
qed

end
